theory Spec2Isabelle
  imports Main "HOL-Library.AList"
begin

section \<open>Data model\<close>

text \<open>
  The service keeps two module-level dictionaries, \<^verbatim>\<open>businesses\<close> and \<^verbatim>\<open>products\<close>,
  and five handlers per dictionary. The records stored are pydantic models; every
  construction of a model validates its keyword arguments.

  A \<^verbatim>\<open>datetime\<close> is a point of time, a natural number of clock ticks. A Python \<^verbatim>\<open>str\<close>
  is a sequence of Unicode code points; \<open>str_of\<close> gives the \<^verbatim>\<open>str\<close> of an ASCII literal.
  Field names in error locations and the detail of an \<^verbatim>\<open>HTTPException\<close> are fixed ASCII
  texts and stay literals.
\<close>

type_synonym datetime = nat

type_synonym codepoint = nat

type_synonym str = "codepoint list"

definition str_of :: "string \<Rightarrow> str" where
  "str_of s = map of_char s"

text \<open>
  A keyword argument of a model constructor, and likewise a member of a JSON object: the key
  is absent, or it carries \<^verbatim>\<open>None\<close>, or it carries a value. The same type describes a field
  of an update payload: not set (absent from \<^verbatim>\<open>model_fields_set\<close>, the attribute holding the
  default \<^verbatim>\<open>None\<close>), set to \<^verbatim>\<open>None\<close>, or set to a value.
\<close>

datatype 'a arg = Absent | PyNone | Val 'a

text \<open>\<^verbatim>\<open>class BusinessBase\<close> and \<^verbatim>\<open>class BusinessRead(BusinessBase)\<close> (models/business.py).\<close>

record BusinessBase =
  ein :: str
  name :: str
  email :: str
  phone :: "str option"

record BusinessRead = BusinessBase +
  created_at :: datetime
  updated_at :: datetime

text \<open>
  \<^verbatim>\<open>class BusinessUpdate\<close>: every field is \<^verbatim>\<open>Optional\<close> with default \<^verbatim>\<open>None\<close>; the model
  remembers which fields the payload has set.
\<close>

record BusinessUpdate =
  u_ein :: "str arg"
  u_name :: "str arg"
  u_email :: "str arg"
  u_phone :: "str arg"

text \<open>
  The dictionary a Business model is built from or dumped to (\<^verbatim>\<open>model_dump()\<close>,
  \<^verbatim>\<open>BusinessRead(**stored)\<close>), and the JSON object of a request body: one entry per key
  a Business model knows. pydantic ignores every other key.
\<close>

record Business_dict =
  d_ein :: "str arg"
  d_name :: "str arg"
  d_email :: "str arg"
  d_phone :: "str arg"
  d_created_at :: "datetime arg"
  d_updated_at :: "datetime arg"

text \<open>
  \<^verbatim>\<open>class ProductBase\<close>, \<^verbatim>\<open>class ProductRead(ProductBase)\<close> and \<^verbatim>\<open>class ProductUpdate\<close>
  (models/product.py). The fields \<^verbatim>\<open>name\<close>, \<^verbatim>\<open>created_at\<close> and \<^verbatim>\<open>updated_at\<close> of a Product
  carry the prefix \<open>p_\<close> here, the Business models having taken the plain names.
\<close>

record ProductBase =
  product_id :: int
  p_name :: str
  business :: BusinessBase

record ProductRead = ProductBase +
  p_created_at :: datetime
  p_updated_at :: datetime

record ProductUpdate =
  u_product_id :: "int arg"
  u_pname :: "str arg"
  u_business :: "BusinessBase arg"

record Product_dict =
  d_product_id :: "int arg"
  d_pname :: "str arg"
  d_business :: "Business_dict arg"
  d_pcreated_at :: "datetime arg"
  d_pupdated_at :: "datetime arg"

text \<open>
  Errors. \<^verbatim>\<open>HTTPException(status_code, detail)\<close> is raised by the handlers. A pydantic
  validation failure lists every failing field with the type of its error; it is a
  \<open>RequestValidationError\<close> when the request body fails to parse (before the handler runs)
  and a \<open>ValidationError\<close> when a constructor called by the handler raises.
\<close>

datatype err_type =
  Missing | String_type | String_pattern_mismatch | Value_error
  | Int_type | Datetime_type | Model_type

type_synonym loc = "string list"

type_synonym field_errors = "(loc \<times> err_type) list"

datatype error =
  HTTPException nat string
  | RequestValidationError field_errors
  | ValidationError field_errors

text \<open>The process state: the two dictionaries, in insertion order.\<close>

record app =
  businesses :: "(str \<times> BusinessRead) list"
  products :: "(int \<times> ProductRead) list"

section \<open>Validation\<close>

subsection \<open>The EIN pattern\<close>

text \<open>
  \<^verbatim>\<open>EINType = Annotated[str, StringConstraints(pattern=r"^\d{2}-\d{7}$")]\<close>.
  The pattern is a sequence of counted atoms, anchored at both ends: the whole string has to
  be consumed.

  \<^verbatim>\<open>\d\<close> on a \<^verbatim>\<open>str\<close> matches every Unicode decimal digit (general category Nd), not only
  the ASCII digits. The table of these code points belongs to the regex engine, not to the
  repository; \<open>decimal_ranges\<close> lists its ranges in Unicode 14: the ASCII digits 48 to 57 first,
  then the digits of the other scripts (Arabic-Indic 1632 to 1641, Devanagari 2406 to 2415,
  fullwidth 65296 to 65305, and so on).
\<close>

definition decimal_ranges :: "(codepoint \<times> codepoint) list" where
  "decimal_ranges =
     [(48, 57), (1632, 1641), (1776, 1785), (1984, 1993), (2406, 2415), (2534, 2543),
      (2662, 2671), (2790, 2799), (2918, 2927), (3046, 3055), (3174, 3183), (3302, 3311),
      (3430, 3439), (3558, 3567), (3664, 3673), (3792, 3801), (3872, 3881), (4160, 4169),
      (4240, 4249), (6112, 6121), (6160, 6169), (6470, 6479), (6608, 6617), (6784, 6793),
      (6800, 6809), (6992, 7001), (7088, 7097), (7232, 7241), (7248, 7257), (42528, 42537),
      (43216, 43225), (43264, 43273), (43472, 43481), (43504, 43513), (43600, 43609),
      (44016, 44025), (65296, 65305), (66720, 66729), (68912, 68921), (69734, 69743),
      (69872, 69881), (69942, 69951), (70096, 70105), (70384, 70393), (70736, 70745),
      (70864, 70873), (71248, 71257), (71360, 71369), (71472, 71481), (71904, 71913),
      (72016, 72025), (72784, 72793), (73040, 73049), (73120, 73129), (92768, 92777),
      (92864, 92873), (93008, 93017), (120782, 120831), (123200, 123209), (123632, 123641),
      (125264, 125273), (130032, 130041)]"

definition is_digit :: "codepoint \<Rightarrow> bool" where
  "is_digit c = list_ex (\<lambda>(lo, hi). lo \<le> c \<and> c \<le> hi) decimal_ranges"

datatype atom = Digit | Lit codepoint

fun atom_matches :: "atom \<Rightarrow> codepoint \<Rightarrow> bool" where
  "atom_matches Digit c = is_digit c"
| "atom_matches (Lit l) c = (c = l)"

fun match_rep :: "atom \<Rightarrow> nat \<Rightarrow> str \<Rightarrow> str option" where
  "match_rep a 0 s = Some s"
| "match_rep a (Suc n) [] = None"
| "match_rep a (Suc n) (c # s) = (if atom_matches a c then match_rep a n s else None)"

fun full_match :: "(atom \<times> nat) list \<Rightarrow> str \<Rightarrow> bool" where
  "full_match [] s = (s = [])"
| "full_match ((a, n) # ps) s =
     (case match_rep a n s of None \<Rightarrow> False | Some rest \<Rightarrow> full_match ps rest)"

text \<open>The hyphen is U+002D, code point 45.\<close>

definition EIN_pattern :: "(atom \<times> nat) list" where
  "EIN_pattern = [(Digit, 2), (Lit 45, 1), (Digit, 7)]"

definition EINType_ok :: "str \<Rightarrow> bool" where
  "EINType_ok s = full_match EIN_pattern s"




subsection \<open>Field validators\<close>

text \<open>
  Each validator returns the errors of one field or its validated value. The address
  validator behind \<^verbatim>\<open>EmailStr\<close> belongs to a library outside the repository: it is the
  parameter \<open>ev\<close>, which rejects an address or returns its normalised form.
\<close>

fun str_field :: "loc \<Rightarrow> str arg \<Rightarrow> field_errors + str" where
  "str_field l Absent = Inl [(l, Missing)]"
| "str_field l PyNone = Inl [(l, String_type)]"
| "str_field l (Val s) = Inr s"

fun ein_field :: "loc \<Rightarrow> str arg \<Rightarrow> field_errors + str" where
  "ein_field l Absent = Inl [(l, Missing)]"
| "ein_field l PyNone = Inl [(l, String_type)]"
| "ein_field l (Val s) =
     (if EINType_ok s then Inr s else Inl [(l, String_pattern_mismatch)])"

fun email_field :: "(str \<Rightarrow> str option) \<Rightarrow> loc \<Rightarrow> str arg \<Rightarrow> field_errors + str" where
  "email_field ev l Absent = Inl [(l, Missing)]"
| "email_field ev l PyNone = Inl [(l, String_type)]"
| "email_field ev l (Val s) =
     (case ev s of None \<Rightarrow> Inl [(l, Value_error)] | Some e \<Rightarrow> Inr e)"

text \<open>\<^verbatim>\<open>Optional[str] = Field(None, ...)\<close>: an absent key takes the default.\<close>

fun opt_str_field :: "loc \<Rightarrow> str arg \<Rightarrow> field_errors + str option" where
  "opt_str_field l Absent = Inr None"
| "opt_str_field l PyNone = Inr None"
| "opt_str_field l (Val s) = Inr (Some s)"

text \<open>
  \<^verbatim>\<open>datetime = Field(default_factory=datetime.utcnow)\<close>: an absent key reads the clock;
  \<open>t\<close> is what the clock would return.
\<close>

fun datetime_field :: "loc \<Rightarrow> datetime \<Rightarrow> datetime arg \<Rightarrow> field_errors + datetime" where
  "datetime_field l t Absent = Inr t"
| "datetime_field l t PyNone = Inl [(l, Datetime_type)]"
| "datetime_field l t (Val x) = Inr x"

fun int_field :: "loc \<Rightarrow> int arg \<Rightarrow> field_errors + int" where
  "int_field l Absent = Inl [(l, Missing)]"
| "int_field l PyNone = Inl [(l, Int_type)]"
| "int_field l (Val i) = Inr i"

text \<open>The fields of an update payload: \<^verbatim>\<open>Optional[...] = Field(None, ...)\<close>.\<close>

fun opt_ein_field :: "loc \<Rightarrow> str arg \<Rightarrow> field_errors + str arg" where
  "opt_ein_field l Absent = Inr Absent"
| "opt_ein_field l PyNone = Inr PyNone"
| "opt_ein_field l (Val s) =
     (if EINType_ok s then Inr (Val s) else Inl [(l, String_pattern_mismatch)])"

fun opt_email_field :: "(str \<Rightarrow> str option) \<Rightarrow> loc \<Rightarrow> str arg \<Rightarrow> field_errors + str arg" where
  "opt_email_field ev l Absent = Inr Absent"
| "opt_email_field ev l PyNone = Inr PyNone"
| "opt_email_field ev l (Val s) =
     (case ev s of None \<Rightarrow> Inl [(l, Value_error)] | Some e \<Rightarrow> Inr (Val e))"

fun errs :: "field_errors + 'a \<Rightarrow> field_errors" where
  "errs (Inl e) = e"
| "errs (Inr _) = []"

subsection \<open>Model constructors\<close>

text \<open>
  \<^verbatim>\<open>BusinessBase(**d)\<close>, which is also \<^verbatim>\<open>BusinessCreate(**d)\<close>: all fields are validated and
  all errors reported; \<open>l\<close> is the location of the model inside the enclosing one.
\<close>

definition BusinessBase_init ::
  "(str \<Rightarrow> str option) \<Rightarrow> loc \<Rightarrow> Business_dict \<Rightarrow> field_errors + BusinessBase" where
  "BusinessBase_init ev l d =
     (let e = ein_field (l @ [''ein'']) (d_ein d);
          n = str_field (l @ [''name'']) (d_name d);
          m = email_field ev (l @ [''email'']) (d_email d);
          p = opt_str_field (l @ [''phone'']) (d_phone d)
      in case (e, n, m, p) of
           (Inr e', Inr n', Inr m', Inr p') \<Rightarrow>
             Inr \<lparr>ein = e', name = n', email = m', phone = p'\<rparr>
         | _ \<Rightarrow> Inl (errs e @ errs n @ errs m @ errs p))"

text \<open>
  \<^verbatim>\<open>BusinessRead(**d)\<close>. \<open>now\<close> holds the two clock readings that the default factories of
  \<^verbatim>\<open>created_at\<close> and \<^verbatim>\<open>updated_at\<close> return if they are called.
\<close>

definition BusinessRead_init ::
  "(str \<Rightarrow> str option) \<Rightarrow> datetime \<times> datetime \<Rightarrow> Business_dict
     \<Rightarrow> field_errors + BusinessRead" where
  "BusinessRead_init ev now d =
     (let e = ein_field [''ein''] (d_ein d);
          n = str_field [''name''] (d_name d);
          m = email_field ev [''email''] (d_email d);
          p = opt_str_field [''phone''] (d_phone d);
          c = datetime_field [''created_at''] (fst now) (d_created_at d);
          u = datetime_field [''updated_at''] (snd now) (d_updated_at d)
      in case (e, n, m, p, c, u) of
           (Inr e', Inr n', Inr m', Inr p', Inr c', Inr u') \<Rightarrow>
             Inr \<lparr>ein = e', name = n', email = m', phone = p',
                  created_at = c', updated_at = u'\<rparr>
         | _ \<Rightarrow> Inl (errs e @ errs n @ errs m @ errs p @ errs c @ errs u))"

text \<open>\<^verbatim>\<open>BusinessUpdate(**d)\<close>.\<close>

definition BusinessUpdate_init ::
  "(str \<Rightarrow> str option) \<Rightarrow> Business_dict \<Rightarrow> field_errors + BusinessUpdate" where
  "BusinessUpdate_init ev d =
     (let e = opt_ein_field [''ein''] (d_ein d);
          m = opt_email_field ev [''email''] (d_email d)
      in case (e, m) of
           (Inr e', Inr m') \<Rightarrow>
             Inr \<lparr>u_ein = e', u_name = d_name d, u_email = m', u_phone = d_phone d\<rparr>
         | _ \<Rightarrow> Inl (errs e @ errs m))"

text \<open>The nested model of a Product: \<^verbatim>\<open>business: BusinessBase\<close>.\<close>

fun business_field ::
  "(str \<Rightarrow> str option) \<Rightarrow> loc \<Rightarrow> Business_dict arg \<Rightarrow> field_errors + BusinessBase" where
  "business_field ev l Absent = Inl [(l, Missing)]"
| "business_field ev l PyNone = Inl [(l, Model_type)]"
| "business_field ev l (Val d) = BusinessBase_init ev l d"

fun opt_business_field ::
  "(str \<Rightarrow> str option) \<Rightarrow> loc \<Rightarrow> Business_dict arg
     \<Rightarrow> field_errors + BusinessBase arg" where
  "opt_business_field ev l Absent = Inr Absent"
| "opt_business_field ev l PyNone = Inr PyNone"
| "opt_business_field ev l (Val d) =
     (case BusinessBase_init ev l d of Inl e \<Rightarrow> Inl e | Inr b \<Rightarrow> Inr (Val b))"

text \<open>\<^verbatim>\<open>ProductBase(**d)\<close>, which is also \<^verbatim>\<open>ProductCreate(**d)\<close>.\<close>

definition ProductBase_init ::
  "(str \<Rightarrow> str option) \<Rightarrow> Product_dict \<Rightarrow> field_errors + ProductBase" where
  "ProductBase_init ev d =
     (let i = int_field [''product_id''] (d_product_id d);
          n = str_field [''name''] (d_pname d);
          b = business_field ev [''business''] (d_business d)
      in case (i, n, b) of
           (Inr i', Inr n', Inr b') \<Rightarrow>
             Inr \<lparr>product_id = i', p_name = n', business = b'\<rparr>
         | _ \<Rightarrow> Inl (errs i @ errs n @ errs b))"

text \<open>\<^verbatim>\<open>ProductRead(**d)\<close>.\<close>

definition ProductRead_init ::
  "(str \<Rightarrow> str option) \<Rightarrow> datetime \<times> datetime \<Rightarrow> Product_dict
     \<Rightarrow> field_errors + ProductRead" where
  "ProductRead_init ev now d =
     (let i = int_field [''product_id''] (d_product_id d);
          n = str_field [''name''] (d_pname d);
          b = business_field ev [''business''] (d_business d);
          c = datetime_field [''created_at''] (fst now) (d_pcreated_at d);
          u = datetime_field [''updated_at''] (snd now) (d_pupdated_at d)
      in case (i, n, b, c, u) of
           (Inr i', Inr n', Inr b', Inr c', Inr u') \<Rightarrow>
             Inr \<lparr>product_id = i', p_name = n', business = b',
                  p_created_at = c', p_updated_at = u'\<rparr>
         | _ \<Rightarrow> Inl (errs i @ errs n @ errs b @ errs c @ errs u))"

text \<open>\<^verbatim>\<open>ProductUpdate(**d)\<close>.\<close>

definition ProductUpdate_init ::
  "(str \<Rightarrow> str option) \<Rightarrow> Product_dict \<Rightarrow> field_errors + ProductUpdate" where
  "ProductUpdate_init ev d =
     (case opt_business_field ev [''business''] (d_business d) of
        Inl e \<Rightarrow> Inl e
      | Inr b \<Rightarrow> Inr \<lparr>u_product_id = d_product_id d, u_pname = d_pname d, u_business = b\<rparr>)"

section \<open>Dumping and merging\<close>

text \<open>
  \<^verbatim>\<open>model_dump()\<close> of a BusinessBase (a BusinessCreate payload, or the business nested in a
  Product): the four fields, no timestamps.
\<close>

definition BusinessBase_model_dump :: "BusinessBase \<Rightarrow> Business_dict" where
  "BusinessBase_model_dump b =
     \<lparr>d_ein = Val (ein b), d_name = Val (name b), d_email = Val (email b),
      d_phone = (case phone b of None \<Rightarrow> PyNone | Some p \<Rightarrow> Val p),
      d_created_at = Absent, d_updated_at = Absent\<rparr>"

definition BusinessRead_model_dump :: "BusinessRead \<Rightarrow> Business_dict" where
  "BusinessRead_model_dump b =
     \<lparr>d_ein = Val (ein b), d_name = Val (name b), d_email = Val (email b),
      d_phone = (case phone b of None \<Rightarrow> PyNone | Some p \<Rightarrow> Val p),
      d_created_at = Val (created_at b), d_updated_at = Val (updated_at b)\<rparr>"

text \<open>\<^verbatim>\<open>update.model_dump(exclude_unset=True)\<close>: the keys the payload has set, and only those.\<close>

definition BusinessUpdate_model_dump :: "BusinessUpdate \<Rightarrow> Business_dict" where
  "BusinessUpdate_model_dump u =
     \<lparr>d_ein = u_ein u, d_name = u_name u, d_email = u_email u, d_phone = u_phone u,
      d_created_at = Absent, d_updated_at = Absent\<rparr>"

definition ProductBase_model_dump :: "ProductBase \<Rightarrow> Product_dict" where
  "ProductBase_model_dump p =
     \<lparr>d_product_id = Val (product_id p), d_pname = Val (p_name p),
      d_business = Val (BusinessBase_model_dump (business p)),
      d_pcreated_at = Absent, d_pupdated_at = Absent\<rparr>"

definition ProductRead_model_dump :: "ProductRead \<Rightarrow> Product_dict" where
  "ProductRead_model_dump p =
     \<lparr>d_product_id = Val (product_id p), d_pname = Val (p_name p),
      d_business = Val (BusinessBase_model_dump (business p)),
      d_pcreated_at = Val (p_created_at p), d_pupdated_at = Val (p_updated_at p)\<rparr>"

definition ProductUpdate_model_dump :: "ProductUpdate \<Rightarrow> Product_dict" where
  "ProductUpdate_model_dump u =
     \<lparr>d_product_id = u_product_id u, d_pname = u_pname u,
      d_business = map_arg BusinessBase_model_dump (u_business u),
      d_pcreated_at = Absent, d_pupdated_at = Absent\<rparr>"

text \<open>
  \<^verbatim>\<open>stored.update(other)\<close>, key by key: a key of \<open>other\<close> replaces the stored entry, whatever
  it carries; a key \<open>other\<close> lacks leaves the stored entry alone.
\<close>

fun upd :: "'a arg \<Rightarrow> 'a arg \<Rightarrow> 'a arg" where
  "upd old Absent = old"
| "upd old PyNone = PyNone"
| "upd old (Val v) = Val v"

definition Business_dict_update :: "Business_dict \<Rightarrow> Business_dict \<Rightarrow> Business_dict" where
  "Business_dict_update stored other =
     \<lparr>d_ein = upd (d_ein stored) (d_ein other),
      d_name = upd (d_name stored) (d_name other),
      d_email = upd (d_email stored) (d_email other),
      d_phone = upd (d_phone stored) (d_phone other),
      d_created_at = upd (d_created_at stored) (d_created_at other),
      d_updated_at = upd (d_updated_at stored) (d_updated_at other)\<rparr>"

definition Product_dict_update :: "Product_dict \<Rightarrow> Product_dict \<Rightarrow> Product_dict" where
  "Product_dict_update stored other =
     \<lparr>d_product_id = upd (d_product_id stored) (d_product_id other),
      d_pname = upd (d_pname stored) (d_pname other),
      d_business = upd (d_business stored) (d_business other),
      d_pcreated_at = upd (d_pcreated_at stored) (d_pcreated_at other),
      d_pupdated_at = upd (d_pupdated_at stored) (d_pupdated_at other)\<rparr>"

section \<open>Handlers (main.py)\<close>

text \<open>
  A handler takes the state and returns its result with the state it leaves. A Python
  dictionary keeps insertion order: assigning to a key that is present replaces the value in
  place, assigning to a new key appends (\<open>AList.update\<close>), \<^verbatim>\<open>del\<close> removes the entry
  (\<open>AList.delete\<close>). \<^verbatim>\<open>k in d\<close> is \<open>map_of d k \<noteq> None\<close>.
\<close>

subsection \<open>Business endpoints\<close>

definition create_business ::
  "(str \<Rightarrow> str option) \<Rightarrow> datetime \<times> datetime \<Rightarrow> BusinessBase \<Rightarrow> app
     \<Rightarrow> (error + BusinessRead) \<times> app" where
  "create_business ev now b s =
     (if map_of (businesses s) (ein b) \<noteq> None
      then (Inl (HTTPException 400 ''Business with this EIN already exists''), s)
      else case BusinessRead_init ev now (BusinessBase_model_dump b) of
             Inl e \<Rightarrow> (Inl (ValidationError e), s)
           | Inr r \<Rightarrow> (Inr r, s\<lparr>businesses := AList.update (ein b) r (businesses s)\<rparr>))"

definition list_businesses ::
  "str option \<Rightarrow> str option \<Rightarrow> str option \<Rightarrow> str option \<Rightarrow> app
     \<Rightarrow> BusinessRead list" where
  "list_businesses ein_q name_q email_q phone_q s =
     (let results = map snd (businesses s);
          results = (case ein_q of None \<Rightarrow> results
                     | Some e \<Rightarrow> filter (\<lambda>b. ein b = e) results);
          results = (case name_q of None \<Rightarrow> results
                     | Some n \<Rightarrow> filter (\<lambda>b. name b = n) results);
          results = (case email_q of None \<Rightarrow> results
                     | Some m \<Rightarrow> filter (\<lambda>b. email b = m) results);
          results = (case phone_q of None \<Rightarrow> results
                     | Some p \<Rightarrow> filter (\<lambda>b. phone b = Some p) results)
      in results)"

definition get_business :: "str \<Rightarrow> app \<Rightarrow> error + BusinessRead" where
  "get_business business_ein s =
     (case map_of (businesses s) business_ein of
        None \<Rightarrow> Inl (HTTPException 404 ''Business not found'')
      | Some b \<Rightarrow> Inr b)"

definition update_business ::
  "(str \<Rightarrow> str option) \<Rightarrow> datetime \<times> datetime \<Rightarrow> str \<Rightarrow> BusinessUpdate \<Rightarrow> app
     \<Rightarrow> (error + BusinessRead) \<times> app" where
  "update_business ev now business_ein u s =
     (case map_of (businesses s) business_ein of
        None \<Rightarrow> (Inl (HTTPException 404 ''Business not found''), s)
      | Some b \<Rightarrow>
          (let stored = BusinessRead_model_dump b;
               stored = Business_dict_update stored (BusinessUpdate_model_dump u)
           in case BusinessRead_init ev now stored of
                Inl e \<Rightarrow> (Inl (ValidationError e), s)
              | Inr r \<Rightarrow>
                  (Inr r, s\<lparr>businesses := AList.update business_ein r (businesses s)\<rparr>)))"

definition delete_business :: "str \<Rightarrow> app \<Rightarrow> (error + unit) \<times> app" where
  "delete_business k s =
     (if map_of (businesses s) k = None
      then (Inl (HTTPException 404 ''Business not found''), s)
      else (Inr (), s\<lparr>businesses := AList.delete k (businesses s)\<rparr>))"

subsection \<open>Product endpoints\<close>

definition create_product ::
  "(str \<Rightarrow> str option) \<Rightarrow> datetime \<times> datetime \<Rightarrow> ProductBase \<Rightarrow> app
     \<Rightarrow> (error + ProductRead) \<times> app" where
  "create_product ev now p s =
     (if map_of (products s) (product_id p) \<noteq> None
      then (Inl (HTTPException 400 ''Product with this ID already exists''), s)
      else case ProductRead_init ev now (ProductBase_model_dump p) of
             Inl e \<Rightarrow> (Inl (ValidationError e), s)
           | Inr product_read \<Rightarrow>
               (Inr product_read,
                s\<lparr>products :=
                    AList.update (product_id product_read) product_read (products s)\<rparr>))"

definition list_products ::
  "int option \<Rightarrow> str option \<Rightarrow> str option \<Rightarrow> str option \<Rightarrow> app
     \<Rightarrow> ProductRead list" where
  "list_products product_id_q name_q business_ein_q business_name_q s =
     (let results = map snd (products s);
          results = (case product_id_q of None \<Rightarrow> results
                     | Some i \<Rightarrow> filter (\<lambda>p. product_id p = i) results);
          results = (case name_q of None \<Rightarrow> results
                     | Some n \<Rightarrow> filter (\<lambda>p. p_name p = n) results);
          results = (case business_ein_q of None \<Rightarrow> results
                     | Some e \<Rightarrow> filter (\<lambda>p. ein (business p) = e) results);
          results = (case business_name_q of None \<Rightarrow> results
                     | Some n \<Rightarrow> filter (\<lambda>p. name (business p) = n) results)
      in results)"

definition get_product :: "int \<Rightarrow> app \<Rightarrow> error + ProductRead" where
  "get_product pid s =
     (case map_of (products s) pid of
        None \<Rightarrow> Inl (HTTPException 404 ''Product not found'')
      | Some p \<Rightarrow> Inr p)"

definition update_product ::
  "(str \<Rightarrow> str option) \<Rightarrow> datetime \<times> datetime \<Rightarrow> int \<Rightarrow> ProductUpdate \<Rightarrow> app
     \<Rightarrow> (error + ProductRead) \<times> app" where
  "update_product ev now pid u s =
     (case map_of (products s) pid of
        None \<Rightarrow> (Inl (HTTPException 404 ''Product not found''), s)
      | Some p \<Rightarrow>
          (let stored = ProductRead_model_dump p;
               stored = Product_dict_update stored (ProductUpdate_model_dump u)
           in case ProductRead_init ev now stored of
                Inl e \<Rightarrow> (Inl (ValidationError e), s)
              | Inr r \<Rightarrow> (Inr r, s\<lparr>products := AList.update pid r (products s)\<rparr>)))"

definition delete_product :: "int \<Rightarrow> app \<Rightarrow> (error + unit) \<times> app" where
  "delete_product pid s =
     (if map_of (products s) pid = None
      then (Inl (HTTPException 404 ''Product not found''), s)
      else (Inr (), s\<lparr>products := AList.delete pid (products s)\<rparr>))"

subsection \<open>Requests\<close>

text \<open>
  The framework builds the payload model from the JSON body before it calls the handler;
  a body that does not validate never reaches the handler.
\<close>

definition post_businesses ::
  "(str \<Rightarrow> str option) \<Rightarrow> datetime \<times> datetime \<Rightarrow> Business_dict \<Rightarrow> app
     \<Rightarrow> (error + BusinessRead) \<times> app" where
  "post_businesses ev now body s =
     (case BusinessBase_init ev [] body of
        Inl e \<Rightarrow> (Inl (RequestValidationError e), s)
      | Inr b \<Rightarrow> create_business ev now b s)"

definition patch_businesses ::
  "(str \<Rightarrow> str option) \<Rightarrow> datetime \<times> datetime \<Rightarrow> str \<Rightarrow> Business_dict \<Rightarrow> app
     \<Rightarrow> (error + BusinessRead) \<times> app" where
  "patch_businesses ev now business_ein body s =
     (case BusinessUpdate_init ev body of
        Inl e \<Rightarrow> (Inl (RequestValidationError e), s)
      | Inr u \<Rightarrow> update_business ev now business_ein u s)"

definition post_products ::
  "(str \<Rightarrow> str option) \<Rightarrow> datetime \<times> datetime \<Rightarrow> Product_dict \<Rightarrow> app
     \<Rightarrow> (error + ProductRead) \<times> app" where
  "post_products ev now body s =
     (case ProductBase_init ev body of
        Inl e \<Rightarrow> (Inl (RequestValidationError e), s)
      | Inr p \<Rightarrow> create_product ev now p s)"

definition patch_products ::
  "(str \<Rightarrow> str option) \<Rightarrow> datetime \<times> datetime \<Rightarrow> int \<Rightarrow> Product_dict \<Rightarrow> app
     \<Rightarrow> (error + ProductRead) \<times> app" where
  "patch_products ev now pid body s =
     (case ProductUpdate_init ev body of
        Inl e \<Rightarrow> (Inl (RequestValidationError e), s)
      | Inr u \<Rightarrow> update_product ev now pid u s)"

section \<open>Valid payloads and stored records\<close>

text \<open>
  A model that validation has produced holds an EIN of the pattern and an address in the
  form the address validator returns, which the validator accepts and returns as it is.
\<close>

definition valid_business :: "(str \<Rightarrow> str option) \<Rightarrow> 'a BusinessBase_scheme \<Rightarrow> bool" where
  "valid_business ev b = (EINType_ok (ein b) \<and> ev (email b) = Some (email b))"

definition valid_business_update :: "(str \<Rightarrow> str option) \<Rightarrow> BusinessUpdate \<Rightarrow> bool" where
  "valid_business_update ev u =
     ((case u_ein u of Val e \<Rightarrow> EINType_ok e | _ \<Rightarrow> True)
      \<and> (case u_email u of Val m \<Rightarrow> ev m = Some m | _ \<Rightarrow> True))"

definition valid_product :: "(str \<Rightarrow> str option) \<Rightarrow> 'a ProductBase_scheme \<Rightarrow> bool" where
  "valid_product ev p = valid_business ev (business p)"

definition valid_product_update :: "(str \<Rightarrow> str option) \<Rightarrow> ProductUpdate \<Rightarrow> bool" where
  "valid_product_update ev u =
     (case u_business u of Val b \<Rightarrow> valid_business ev b | _ \<Rightarrow> True)"

text \<open>
  A state all of whose records are valid, and an address validator that accepts what it
  returns and returns it unchanged. Under such a validator every request leaves a valid
  state valid, so the records an Update finds in the store are valid ones.
\<close>

definition valid_store :: "(str \<Rightarrow> str option) \<Rightarrow> app \<Rightarrow> bool" where
  "valid_store ev s =
     (list_all (\<lambda>kb. valid_business ev (snd kb)) (businesses s) \<and>
      list_all (\<lambda>ip. valid_product ev (snd ip)) (products s))"

definition idempotent :: "(str \<Rightarrow> str option) \<Rightarrow> bool" where
  "idempotent ev = (\<forall>a a'. ev a = Some a' \<longrightarrow> ev a' = Some a')"

text \<open>The error kinds of the specification, as the handlers signal them.\<close>

definition NotFound :: "error \<Rightarrow> bool" where
  "NotFound e = (case e of HTTPException c _ \<Rightarrow> c = 404 | _ \<Rightarrow> False)"

definition Conflict :: "error \<Rightarrow> bool" where
  "Conflict e = (case e of HTTPException c _ \<Rightarrow> c = 400 | _ \<Rightarrow> False)"



section \<open>Sample data\<close>

text \<open>
  A stand-in for the address validator, to run the handlers on concrete inputs: it accepts a
  \<^verbatim>\<open>str\<close> that contains \<open>@\<close> (code point 64) and returns it as it is. The state \<open>app1\<close> holds one Business and
  one Product that embeds it.
\<close>

definition accept_at :: "str \<Rightarrow> str option" where
  "accept_at a = (if 64 \<in> set a then Some a else None)"

definition cupcakes :: BusinessBase where
  "cupcakes = \<lparr>ein = (str_of ''12-3456789''), name = (str_of ''Ashleys Cupcakes''),
               email = (str_of ''a@example.com''), phone = Some (str_of ''+1-212-555-0199'')\<rparr>"

definition cupcakes_read :: BusinessRead where
  "cupcakes_read = \<lparr>ein = (str_of ''12-3456789''), name = (str_of ''Ashleys Cupcakes''),
               email = (str_of ''a@example.com''), phone = Some (str_of ''+1-212-555-0199''),
               created_at = 100, updated_at = 100\<rparr>"

definition vanilla :: ProductBase where
  "vanilla = \<lparr>product_id = 0, p_name = (str_of ''Vanilla Cupcake''), business = cupcakes\<rparr>"

definition vanilla_read :: ProductRead where
  "vanilla_read = \<lparr>product_id = 0, p_name = (str_of ''Vanilla Cupcake''), business = cupcakes,
                    p_created_at = 110, p_updated_at = 110\<rparr>"

definition app1 :: app where
  "app1 = \<lparr>businesses = [(str_of ''12-3456789'', cupcakes_read)], products = [(0, vanilla_read)]\<rparr>"

definition rename :: BusinessUpdate where
  "rename = \<lparr>u_ein = Absent, u_name = Val (str_of ''Ashleys Bakery''), u_email = Absent,
              u_phone = PyNone\<rparr>"

definition no_change :: BusinessUpdate where
  "no_change = \<lparr>u_ein = Absent, u_name = Absent, u_email = Absent, u_phone = Absent\<rparr>"

definition p_rename :: ProductUpdate where
  "p_rename = \<lparr>u_product_id = Absent, u_pname = Val (str_of ''Chocolate Cupcake''),
                u_business = Absent\<rparr>"

definition p_no_change :: ProductUpdate where
  "p_no_change = \<lparr>u_product_id = Absent, u_pname = Absent, u_business = Absent\<rparr>"

definition bakery :: BusinessBase where
  "bakery = \<lparr>ein = (str_of ''98-7654321''), name = (str_of ''Corner Bakery''),
              email = (str_of ''b@example.com''), phone = None\<rparr>"

definition chocolate :: ProductBase where
  "chocolate = \<lparr>product_id = 1, p_name = (str_of ''Chocolate Cupcake''), business = bakery\<rparr>"

definition renamed_read :: BusinessRead where
  "renamed_read = \<lparr>ein = (str_of ''12-3456789''), name = (str_of ''Ashleys Bakery''),
               email = (str_of ''a@example.com''), phone = None,
               created_at = 100, updated_at = 100\<rparr>"

definition p_renamed_read :: ProductRead where
  "p_renamed_read = \<lparr>product_id = 0, p_name = (str_of ''Chocolate Cupcake''), business = cupcakes,
                    p_created_at = 110, p_updated_at = 110\<rparr>"

definition rekey :: BusinessUpdate where
  "rekey = \<lparr>u_ein = Val (str_of ''98-7654321''), u_name = Absent, u_email = Absent,
             u_phone = Absent\<rparr>"

definition rekeyed_read :: BusinessRead where
  "rekeyed_read = \<lparr>ein = (str_of ''98-7654321''), name = (str_of ''Ashleys Cupcakes''),
               email = (str_of ''a@example.com''), phone = Some (str_of ''+1-212-555-0199''),
               created_at = 100, updated_at = 100\<rparr>"

definition p_rekey :: ProductUpdate where
  "p_rekey = \<lparr>u_product_id = Val 5, u_pname = Absent, u_business = Absent\<rparr>"

definition p_rekeyed_read :: ProductRead where
  "p_rekeyed_read = \<lparr>product_id = 5, p_name = (str_of ''Vanilla Cupcake''), business = cupcakes,
                    p_created_at = 110, p_updated_at = 110\<rparr>"












section \<open>The EIN pattern accepts the specified format\<close>









text \<open>Evaluating the pattern and the digit table on concrete strings.\<close>

lemma match_rep_numeral:
  "match_rep a (numeral k) [] = None"
  "match_rep a (numeral k) (c # s) =
     (if atom_matches a c then match_rep a (pred_numeral k) s else None)"
  by (simp_all add: numeral_eq_Suc)

lemma is_digit_ranges:
  "48 \<le> c \<Longrightarrow> c \<le> 57 \<Longrightarrow> is_digit c"
  "1632 \<le> c \<Longrightarrow> c \<le> 1641 \<Longrightarrow> is_digit c"
  "c < 48 \<Longrightarrow> \<not> is_digit c"
  by (simp_all add: is_digit_def decimal_ranges_def)

lemma str_of_eq_iff [simp]: "str_of a = str_of b \<longleftrightarrow> a = b"
  by (simp add: str_of_def inj_map_eq_map inj_on_def)

lemma BusinessRead_init_dump:
  "valid_business ev b \<Longrightarrow>
   BusinessRead_init ev now (BusinessBase_model_dump b) =
     Inr \<lparr>ein = ein b, name = name b, email = email b, phone = phone b,
          created_at = fst now, updated_at = snd now\<rparr>"
  by (simp add: valid_business_def BusinessRead_init_def BusinessBase_model_dump_def
      split: option.splits)

lemma BusinessBase_init_dump:
  "valid_business ev b \<Longrightarrow> BusinessBase_init ev l (BusinessBase_model_dump b) = Inr b"
  by (simp add: valid_business_def BusinessBase_init_def BusinessBase_model_dump_def
      split: option.splits)

lemma BusinessRead_init_redump:
  "valid_business ev b \<Longrightarrow> BusinessRead_init ev now (BusinessRead_model_dump b) = Inr b"
  by (simp add: valid_business_def BusinessRead_init_def BusinessRead_model_dump_def
      split: option.splits)

lemma ProductRead_init_dump:
  "valid_product ev p \<Longrightarrow>
   ProductRead_init ev now (ProductBase_model_dump p) =
     Inr \<lparr>product_id = product_id p, p_name = p_name p, business = business p,
          p_created_at = fst now, p_updated_at = snd now\<rparr>"
  by (simp add: valid_product_def ProductRead_init_def ProductBase_model_dump_def
      BusinessBase_init_dump)

lemma ProductRead_init_redump:
  "valid_product ev p \<Longrightarrow> ProductRead_init ev now (ProductRead_model_dump p) = Inr p"
  by (simp add: valid_product_def ProductRead_init_def ProductRead_model_dump_def
      BusinessBase_init_dump)

text \<open>
  C1. Creating a Business whose \<open>ein\<close> is already a key of the Business store fails with
  Conflict (HTTP 400) and returns the state it was given, so the record stored under that
  \<open>ein\<close> is the one stored before; the same holds for creating a Product whose
  \<open>product_id\<close> is already a key.
\<close>
theorem create_duplicate_conflict:
  "(map_of (businesses s) (ein b) \<noteq> None \<longrightarrow>
      (\<exists>e. create_business ev now b s = (Inl e, s) \<and> Conflict e)) \<and>
   (map_of (products s) (product_id p) \<noteq> None \<longrightarrow>
      (\<exists>e. create_product ev now p s = (Inl e, s) \<and> Conflict e))"
  by (simp add: create_business_def create_product_def Conflict_def)


lemma accept_at_samples:
  "accept_at (str_of ''a@example.com'') = Some (str_of ''a@example.com'')"
  "accept_at (str_of ''b@example.com'') = Some (str_of ''b@example.com'')"
  by (simp_all add: accept_at_def str_of_def)

lemma EINType_sample: "EINType_ok (str_of ''12-3456789'')" "EINType_ok (str_of ''98-7654321'')" "\<not> EINType_ok (str_of ''123456789'')"
  by (simp_all add: EINType_ok_def EIN_pattern_def str_of_def match_rep_numeral
      is_digit_ranges)

lemma valid_samples: "valid_business accept_at cupcakes" "valid_business accept_at cupcakes_read"
  "valid_product accept_at vanilla" "valid_product accept_at vanilla_read"
  by (simp_all add: valid_business_def valid_product_def cupcakes_def cupcakes_read_def
      vanilla_def vanilla_read_def accept_at_samples EINType_sample)

theorem create_duplicate_conflict_witness:
  "map_of (businesses app1) (ein cupcakes) \<noteq> None \<and>
   map_of (products app1) (product_id vanilla) \<noteq> None \<and>
   (\<exists>e. create_business accept_at (200, 201) cupcakes app1 = (Inl e, app1) \<and> Conflict e) \<and>
   (\<exists>e. create_product accept_at (200, 201) vanilla app1 = (Inl e, app1) \<and> Conflict e)"
  using create_duplicate_conflict [of app1 cupcakes accept_at "(200, 201)" vanilla]
  by (simp add: app1_def cupcakes_def vanilla_def)




lemma NotFound_simps:
  "NotFound (HTTPException c d) = (c = 404)"
  "NotFound (ValidationError es) = False"
  "NotFound (RequestValidationError es) = False"
  by (simp_all add: NotFound_def)

lemma update_business_absent:
  "map_of (businesses s) k = None \<Longrightarrow>
   update_business ev now k u s = (Inl (HTTPException 404 ''Business not found''), s)"
  by (simp add: update_business_def)

lemma update_business_present:
  "map_of (businesses s) k = Some b \<Longrightarrow>
   update_business ev now k u s =
     (case BusinessRead_init ev now
             (Business_dict_update (BusinessRead_model_dump b) (BusinessUpdate_model_dump u)) of
        Inl e \<Rightarrow> (Inl (ValidationError e), s)
      | Inr r \<Rightarrow> (Inr r, s\<lparr>businesses := AList.update k r (businesses s)\<rparr>))"
  by (simp add: update_business_def)

lemma update_product_absent:
  "map_of (products s) i = None \<Longrightarrow>
   update_product ev now i u s = (Inl (HTTPException 404 ''Product not found''), s)"
  by (simp add: update_product_def)

lemma update_product_present:
  "map_of (products s) i = Some p \<Longrightarrow>
   update_product ev now i u s =
     (case ProductRead_init ev now
             (Product_dict_update (ProductRead_model_dump p) (ProductUpdate_model_dump u)) of
        Inl e \<Rightarrow> (Inl (ValidationError e), s)
      | Inr r \<Rightarrow> (Inr r, s\<lparr>products := AList.update i r (products s)\<rparr>))"
  by (simp add: update_product_def)

lemma update_business_NotFound:
  "(\<exists>e. fst (update_business ev now k u s) = Inl e \<and> NotFound e) \<longleftrightarrow> map_of (businesses s) k = None"
  by (cases "map_of (businesses s) k")
     (auto simp: update_business_absent update_business_present NotFound_simps split: sum.splits)

lemma update_product_NotFound:
  "(\<exists>e. fst (update_product ev now i u s) = Inl e \<and> NotFound e) \<longleftrightarrow> map_of (products s) i = None"
  by (cases "map_of (products s) i")
     (auto simp: update_product_absent update_product_present NotFound_simps split: sum.splits)

text \<open>
  C6. Get, Update and Delete fail with NotFound (HTTP 404) if and only if the key is not in
  the store (Get and Delete fail in no other way); on that failure Update and Delete return
  the state unchanged, and the number of stored records is the same. Get does not return a
  state: it cannot change it. Businesses and Products alike.
\<close>
theorem not_found_iff_absent:
  "((\<exists>e. get_business k s = Inl e \<and> NotFound e) \<longleftrightarrow> map_of (businesses s) k = None) \<and>
   ((\<exists>e. get_business k s = Inl e) \<longleftrightarrow> map_of (businesses s) k = None) \<and>
   ((\<exists>e. fst (update_business ev now k u s) = Inl e \<and> NotFound e)
      \<longleftrightarrow> map_of (businesses s) k = None) \<and>
   ((\<exists>e. fst (delete_business k s) = Inl e \<and> NotFound e) \<longleftrightarrow> map_of (businesses s) k = None) \<and>
   ((\<exists>e. fst (delete_business k s) = Inl e) \<longleftrightarrow> map_of (businesses s) k = None) \<and>
   (map_of (businesses s) k = None \<longrightarrow>
      snd (update_business ev now k u s) = s \<and> snd (delete_business k s) = s \<and>
      length (businesses (snd (delete_business k s))) = length (businesses s)) \<and>
   ((\<exists>e. get_product i s = Inl e \<and> NotFound e) \<longleftrightarrow> map_of (products s) i = None) \<and>
   ((\<exists>e. get_product i s = Inl e) \<longleftrightarrow> map_of (products s) i = None) \<and>
   ((\<exists>e. fst (update_product ev now i pu s) = Inl e \<and> NotFound e)
      \<longleftrightarrow> map_of (products s) i = None) \<and>
   ((\<exists>e. fst (delete_product i s) = Inl e \<and> NotFound e) \<longleftrightarrow> map_of (products s) i = None) \<and>
   ((\<exists>e. fst (delete_product i s) = Inl e) \<longleftrightarrow> map_of (products s) i = None) \<and>
   (map_of (products s) i = None \<longrightarrow>
      snd (update_product ev now i pu s) = s \<and> snd (delete_product i s) = s \<and>
      length (products (snd (delete_product i s))) = length (products s))"
proof -
  have g: "(\<exists>e. get_business k s = Inl e \<and> NotFound e) \<longleftrightarrow> map_of (businesses s) k = None"
    "(\<exists>e. get_business k s = Inl e) \<longleftrightarrow> map_of (businesses s) k = None"
    by (auto simp: get_business_def NotFound_simps split: option.splits)
  have d: "(\<exists>e. fst (delete_business k s) = Inl e \<and> NotFound e) \<longleftrightarrow> map_of (businesses s) k = None"
    "(\<exists>e. fst (delete_business k s) = Inl e) \<longleftrightarrow> map_of (businesses s) k = None"
    by (auto simp: delete_business_def NotFound_simps)
  have f: "map_of (businesses s) k = None \<longrightarrow>
      snd (update_business ev now k u s) = s \<and> snd (delete_business k s) = s \<and>
      length (businesses (snd (delete_business k s))) = length (businesses s)"
    by (simp add: update_business_absent delete_business_def)
  have gp: "(\<exists>e. get_product i s = Inl e \<and> NotFound e) \<longleftrightarrow> map_of (products s) i = None"
    "(\<exists>e. get_product i s = Inl e) \<longleftrightarrow> map_of (products s) i = None"
    by (auto simp: get_product_def NotFound_simps split: option.splits)
  have dp: "(\<exists>e. fst (delete_product i s) = Inl e \<and> NotFound e) \<longleftrightarrow> map_of (products s) i = None"
    "(\<exists>e. fst (delete_product i s) = Inl e) \<longleftrightarrow> map_of (products s) i = None"
    by (auto simp: delete_product_def NotFound_simps)
  have fp: "map_of (products s) i = None \<longrightarrow>
      snd (update_product ev now i pu s) = s \<and> snd (delete_product i s) = s \<and>
      length (products (snd (delete_product i s))) = length (products s)"
    by (simp add: update_product_absent delete_product_def)
  from g d f gp dp fp update_business_NotFound [of ev now k u s]
    update_product_NotFound [of ev now i pu s]
  show ?thesis by blast
qed

theorem not_found_iff_absent_witness:
  "map_of (businesses app1) (str_of ''00-0000000'') = None \<and> map_of (products app1) 7 = None \<and>
   (\<exists>e. get_business (str_of ''00-0000000'') app1 = Inl e \<and> NotFound e) \<and>
   (\<exists>e. fst (delete_business (str_of ''00-0000000'') app1) = Inl e \<and> NotFound e) \<and>
   snd (delete_business (str_of ''00-0000000'') app1) = app1 \<and>
   length (businesses (snd (delete_business (str_of ''00-0000000'') app1))) = length (businesses app1) \<and>
   (\<exists>e. fst (update_product accept_at (200, 201) 7 p_rename app1) = Inl e \<and> NotFound e) \<and>
   snd (delete_product 7 app1) = app1"
proof -
  have a: "map_of (businesses app1) (str_of ''00-0000000'') = None" "map_of (products app1) 7 = None"
    by (simp_all add: app1_def)
  with not_found_iff_absent [of "(str_of ''00-0000000'')" app1 accept_at "(200, 201)" rename 7 p_rename]
  show ?thesis by blast
qed


lemma create_business_ok:
  "valid_business ev b \<Longrightarrow> map_of (businesses s) (ein b) = None \<Longrightarrow>
   create_business ev now b s =
     (Inr \<lparr>ein = ein b, name = name b, email = email b, phone = phone b,
           created_at = fst now, updated_at = snd now\<rparr>,
      s\<lparr>businesses := AList.update (ein b)
            \<lparr>ein = ein b, name = name b, email = email b, phone = phone b,
             created_at = fst now, updated_at = snd now\<rparr> (businesses s)\<rparr>)"
  by (simp add: create_business_def BusinessRead_init_dump)

lemma create_product_ok:
  "valid_product ev p \<Longrightarrow> map_of (products s) (product_id p) = None \<Longrightarrow>
   create_product ev now p s =
     (Inr \<lparr>product_id = product_id p, p_name = p_name p, business = business p,
           p_created_at = fst now, p_updated_at = snd now\<rparr>,
      s\<lparr>products := AList.update (product_id p)
            \<lparr>product_id = product_id p, p_name = p_name p, business = business p,
             p_created_at = fst now, p_updated_at = snd now\<rparr> (products s)\<rparr>)"
  by (simp add: create_product_def ProductRead_init_dump)

text \<open>
  C5. For a valid payload whose key is not yet present, Create succeeds, and Get on that key
  in the resulting state returns the created record: its fields are those of the payload and
  its timestamps the two clock readings.
\<close>
theorem create_then_get:
  "(valid_business ev b \<and> map_of (businesses s) (ein b) = None \<longrightarrow>
      (\<exists>r s'. create_business ev now b s = (Inr r, s') \<and> get_business (ein b) s' = Inr r \<and>
         ein r = ein b \<and> name r = name b \<and> email r = email b \<and> phone r = phone b \<and>
         created_at r = fst now \<and> updated_at r = snd now)) \<and>
   (valid_product ev p \<and> map_of (products s) (product_id p) = None \<longrightarrow>
      (\<exists>r s'. create_product ev now p s = (Inr r, s') \<and> get_product (product_id p) s' = Inr r \<and>
         product_id r = product_id p \<and> p_name r = p_name p \<and> business r = business p \<and>
         p_created_at r = fst now \<and> p_updated_at r = snd now))"
  by (simp add: create_business_ok create_product_ok get_business_def get_product_def
      AList.update_conv')



lemma valid_samples2: "valid_business accept_at bakery" "valid_product accept_at chocolate"
  by (simp_all add: valid_business_def valid_product_def bakery_def chocolate_def
      accept_at_samples EINType_sample)

theorem create_then_get_witness:
  "valid_business accept_at bakery \<and> map_of (businesses app1) (ein bakery) = None \<and>
   valid_product accept_at chocolate \<and> map_of (products app1) (product_id chocolate) = None \<and>
   (\<exists>r s'. create_business accept_at (200, 201) bakery app1 = (Inr r, s') \<and>
      get_business (ein bakery) s' = Inr r \<and> ein r = ein bakery \<and> name r = name bakery \<and>
      email r = email bakery \<and> phone r = phone bakery \<and>
      created_at r = 200 \<and> updated_at r = 201) \<and>
   (\<exists>r s'. create_product accept_at (200, 201) chocolate app1 = (Inr r, s') \<and>
      get_product (product_id chocolate) s' = Inr r \<and> product_id r = product_id chocolate \<and>
      p_name r = p_name chocolate \<and> business r = business chocolate \<and>
      p_created_at r = 200 \<and> p_updated_at r = 201)"
proof -
  have a: "map_of (businesses app1) (ein bakery) = None"
    "map_of (products app1) (product_id chocolate) = None"
    by (simp_all add: app1_def bakery_def chocolate_def)
  with valid_samples2
    create_then_get [of accept_at bakery app1 "(200, 201)" chocolate]
  show ?thesis by simp
qed

text \<open>
  C10. An Update whose payload sets no field returns the stored record and leaves the state as
  it was, \<open>created_at\<close> and \<open>updated_at\<close> included, whatever the clock reads.
\<close>
theorem empty_update_identity:
  "(map_of (businesses s) k = Some b \<and> valid_business ev b \<longrightarrow>
      update_business ev now k
        \<lparr>u_ein = Absent, u_name = Absent, u_email = Absent, u_phone = Absent\<rparr> s = (Inr b, s)) \<and>
   (map_of (products s) i = Some p \<and> valid_product ev p \<longrightarrow>
      update_product ev now i
        \<lparr>u_product_id = Absent, u_pname = Absent, u_business = Absent\<rparr> s = (Inr p, s))"
proof -
  have d: "Business_dict_update (BusinessRead_model_dump b)
             (BusinessUpdate_model_dump
                \<lparr>u_ein = Absent, u_name = Absent, u_email = Absent, u_phone = Absent\<rparr>)
           = BusinessRead_model_dump b"
    by (simp add: Business_dict_update_def BusinessUpdate_model_dump_def
        BusinessRead_model_dump_def)
  have dp: "Product_dict_update (ProductRead_model_dump p)
             (ProductUpdate_model_dump
                \<lparr>u_product_id = Absent, u_pname = Absent, u_business = Absent\<rparr>)
           = ProductRead_model_dump p"
    by (simp add: Product_dict_update_def ProductUpdate_model_dump_def
        ProductRead_model_dump_def)
  show ?thesis
    by (simp add: update_business_present update_product_present d dp
        BusinessRead_init_redump ProductRead_init_redump AList.update_triv)
qed

theorem empty_update_identity_witness:
  "map_of (businesses app1) (str_of ''12-3456789'') = Some cupcakes_read \<and>
   valid_business accept_at cupcakes_read \<and>
   map_of (products app1) 0 = Some vanilla_read \<and> valid_product accept_at vanilla_read \<and>
   update_business accept_at (200, 201) (str_of ''12-3456789'')
     \<lparr>u_ein = Absent, u_name = Absent, u_email = Absent, u_phone = Absent\<rparr> app1
     = (Inr cupcakes_read, app1) \<and>
   update_product accept_at (200, 201) 0
     \<lparr>u_product_id = Absent, u_pname = Absent, u_business = Absent\<rparr> app1
     = (Inr vanilla_read, app1)"
proof -
  have a: "map_of (businesses app1) (str_of ''12-3456789'') = Some cupcakes_read"
    "map_of (products app1) 0 = Some vanilla_read"
    by (simp_all add: app1_def)
  with valid_samples
    empty_update_identity [of app1 "(str_of ''12-3456789'')" cupcakes_read accept_at "(200, 201)" 0 vanilla_read]
  show ?thesis by simp
qed


text \<open>What a successful construction of a BusinessRead says about its arguments.\<close>

lemma ein_field_Inr: "ein_field l a = Inr e \<longleftrightarrow> a = Val e \<and> EINType_ok e"
  by (cases a) auto

lemma str_field_Inr: "str_field l a = Inr n \<longleftrightarrow> a = Val n"
  by (cases a) auto

lemma email_field_Inr: "email_field ev l a = Inr m \<longleftrightarrow> (\<exists>x. a = Val x \<and> ev x = Some m)"
  by (cases a) (auto split: option.splits)

lemma opt_str_field_Inr:
  "opt_str_field l a = Inr p \<longleftrightarrow> (case a of Val x \<Rightarrow> p = Some x | _ \<Rightarrow> p = None)"
  by (cases a) auto

lemma datetime_field_Inr:
  "datetime_field l t a = Inr x \<longleftrightarrow> (a = Absent \<and> x = t \<or> a = Val x)"
  by (cases a) auto

lemma int_field_Inr: "int_field l a = Inr i \<longleftrightarrow> a = Val i"
  by (cases a) auto

lemma BusinessRead_init_Inr_iff:
  "BusinessRead_init ev now d = Inr r \<longleftrightarrow>
     ein_field [''ein''] (d_ein d) = Inr (ein r) \<and>
     str_field [''name''] (d_name d) = Inr (name r) \<and>
     email_field ev [''email''] (d_email d) = Inr (email r) \<and>
     opt_str_field [''phone''] (d_phone d) = Inr (phone r) \<and>
     datetime_field [''created_at''] (fst now) (d_created_at d) = Inr (created_at r) \<and>
     datetime_field [''updated_at''] (snd now) (d_updated_at d) = Inr (updated_at r)"
  by (cases r) (auto simp: BusinessRead_init_def Let_def split: sum.splits)

lemma BusinessBase_init_Inr_iff:
  "BusinessBase_init ev l d = Inr r \<longleftrightarrow>
     ein_field (l @ [''ein'']) (d_ein d) = Inr (ein r) \<and>
     str_field (l @ [''name'']) (d_name d) = Inr (name r) \<and>
     email_field ev (l @ [''email'']) (d_email d) = Inr (email r) \<and>
     opt_str_field (l @ [''phone'']) (d_phone d) = Inr (phone r)"
  by (cases r) (auto simp: BusinessBase_init_def Let_def split: sum.splits)

lemma business_field_Inr:
  "business_field ev l a = Inr b \<longleftrightarrow> (\<exists>d. a = Val d \<and> BusinessBase_init ev l d = Inr b)"
  by (cases a) auto

lemma ProductRead_init_Inr_iff:
  "ProductRead_init ev now d = Inr r \<longleftrightarrow>
     int_field [''product_id''] (d_product_id d) = Inr (product_id r) \<and>
     str_field [''name''] (d_pname d) = Inr (p_name r) \<and>
     business_field ev [''business''] (d_business d) = Inr (business r) \<and>
     datetime_field [''created_at''] (fst now) (d_pcreated_at d) = Inr (p_created_at r) \<and>
     datetime_field [''updated_at''] (snd now) (d_pupdated_at d) = Inr (p_updated_at r)"
  by (cases r) (auto simp: ProductRead_init_def Let_def split: sum.splits)


lemma update_business_Inr:
  assumes "map_of (businesses s) k = Some b" "update_business ev now k u s = (Inr r, s')"
  shows "BusinessRead_init ev now
           (Business_dict_update (BusinessRead_model_dump b) (BusinessUpdate_model_dump u)) = Inr r"
    and "s' = s\<lparr>businesses := AList.update k r (businesses s)\<rparr>"
  using assms by (auto simp: update_business_present split: sum.splits)

lemma update_product_Inr:
  assumes "map_of (products s) i = Some p" "update_product ev now i u s = (Inr r, s')"
  shows "ProductRead_init ev now
           (Product_dict_update (ProductRead_model_dump p) (ProductUpdate_model_dump u)) = Inr r"
    and "s' = s\<lparr>products := AList.update i r (products s)\<rparr>"
  using assms by (auto simp: update_product_present split: sum.splits)



lemma app1_lookup:
  "map_of (businesses app1) (str_of ''12-3456789'') = Some cupcakes_read"
  "map_of (products app1) 0 = Some vanilla_read"
  "map_of (businesses app1) (str_of ''98-7654321'') = None"
  "map_of (products app1) 5 = None"
  by (simp_all add: app1_def)

lemma BusinessBase_init_cupcakes:
  "BusinessBase_init accept_at l (BusinessBase_model_dump cupcakes) = Inr cupcakes"
  by (rule BusinessBase_init_dump) (rule valid_samples)

lemma rename_run:
  "update_business accept_at now (str_of ''12-3456789'') rename app1 =
     (Inr renamed_read, \<lparr>businesses = [(str_of ''12-3456789'', renamed_read)],
                         products = [(0, vanilla_read)]\<rparr>)"
  by (subst update_business_present [OF app1_lookup(1)])
     (simp add: BusinessRead_init_def
      Business_dict_update_def BusinessRead_model_dump_def BusinessUpdate_model_dump_def
      rename_def cupcakes_read_def renamed_read_def accept_at_samples EINType_sample app1_def)

lemma rekey_run:
  "update_business accept_at now (str_of ''12-3456789'') rekey app1 =
     (Inr rekeyed_read, \<lparr>businesses = [(str_of ''12-3456789'', rekeyed_read)],
                         products = [(0, vanilla_read)]\<rparr>)"
  by (subst update_business_present [OF app1_lookup(1)])
     (simp add: BusinessRead_init_def
      Business_dict_update_def BusinessRead_model_dump_def BusinessUpdate_model_dump_def
      rekey_def cupcakes_read_def rekeyed_read_def accept_at_samples EINType_sample app1_def)

lemma p_rename_run:
  "update_product accept_at now 0 p_rename app1 =
     (Inr p_renamed_read, \<lparr>businesses = [(str_of ''12-3456789'', cupcakes_read)],
                           products = [(0, p_renamed_read)]\<rparr>)"
  by (subst update_product_present [OF app1_lookup(2)])
     (simp add: ProductRead_init_def
      Product_dict_update_def ProductRead_model_dump_def ProductUpdate_model_dump_def
      p_rename_def vanilla_read_def p_renamed_read_def BusinessBase_init_cupcakes app1_def)

lemma p_rekey_run:
  "update_product accept_at now 0 p_rekey app1 =
     (Inr p_rekeyed_read, \<lparr>businesses = [(str_of ''12-3456789'', cupcakes_read)],
                           products = [(0, p_rekeyed_read)]\<rparr>)"
  by (subst update_product_present [OF app1_lookup(2)])
     (simp add: ProductRead_init_def
      Product_dict_update_def ProductRead_model_dump_def ProductUpdate_model_dump_def
      p_rekey_def vanilla_read_def p_rekeyed_read_def BusinessBase_init_cupcakes app1_def)

lemma valid_updates:
  "valid_business_update accept_at rename" "valid_business_update accept_at rekey"
  "valid_product_update accept_at p_rename" "valid_product_update accept_at p_rekey"
  by (simp_all add: valid_business_update_def valid_product_update_def rename_def rekey_def
      p_rename_def p_rekey_def EINType_sample)

text \<open>
  C3. The claim: a successful Update refreshes \<open>updated_at\<close> to the time of the update. The
  handlers do not: a Business stored with \<open>updated_at = 100\<close> and renamed while the clock
  reads 200 and 201 is returned and stored with \<open>updated_at = 100\<close>, and likewise a Product.
\<close>
theorem update_leaves_updated_at:
  "updated_at cupcakes_read = 100 \<and>
   get_business (str_of ''12-3456789'') app1 = Inr cupcakes_read \<and>
   (\<exists>r s'. update_business accept_at (200, 201) (str_of ''12-3456789'') rename app1 = (Inr r, s') \<and>
      get_business (str_of ''12-3456789'') s' = Inr r \<and> name r = (str_of ''Ashleys Bakery'') \<and>
      updated_at r = 100) \<and>
   p_updated_at vanilla_read = 110 \<and>
   get_product 0 app1 = Inr vanilla_read \<and>
   (\<exists>r s'. update_product accept_at (200, 201) 0 p_rename app1 = (Inr r, s') \<and>
      get_product 0 s' = Inr r \<and> p_name r = (str_of ''Chocolate Cupcake'') \<and>
      p_updated_at r = 110)"
  by (simp add: rename_run p_rename_run get_business_def get_product_def app1_lookup)
     (simp add: cupcakes_read_def vanilla_read_def renamed_read_def p_renamed_read_def)


lemma map_fst_update_present:
  "map_of al k = Some v \<Longrightarrow> map fst (AList.update k w al) = map fst al"
  by (auto simp: AList.update_keys dest: map_of_SomeD intro: rev_image_eqI)

lemma update_business_keys:
  "map fst (businesses (snd (update_business ev now k u s))) = map fst (businesses s)"
  by (cases "map_of (businesses s) k")
     (auto simp: update_business_absent update_business_present map_fst_update_present
        split: sum.splits)

lemma update_product_keys:
  "map fst (products (snd (update_product ev now i u s))) = map fst (products s)"
  by (cases "map_of (products s) i")
     (auto simp: update_product_absent update_product_present map_fst_update_present
        split: sum.splits)

lemma update_business_rekey:
  assumes "update_business ev now k u s = (Inr r, s')" "u_ein u = Val e'" "e' \<noteq> k"
  shows "ein r = e'" "get_business k s' = Inr r"
    "map_of (businesses s') e' = map_of (businesses s) e'"
proof -
  from assms(1) obtain b where b: "map_of (businesses s) k = Some b"
    by (cases "map_of (businesses s) k") (auto simp: update_business_absent)
  note i = update_business_Inr [OF b assms(1)]
  from i(1) assms(2) show "ein r = e'"
    by (auto simp: BusinessRead_init_Inr_iff Business_dict_update_def
        BusinessUpdate_model_dump_def split: if_splits)
  show "get_business k s' = Inr r"
    by (simp add: i(2) get_business_def AList.update_conv')
  from assms(3) show "map_of (businesses s') e' = map_of (businesses s) e'"
    by (simp add: i(2) AList.update_conv')
qed

lemma update_product_rekey:
  assumes "update_product ev now i u s = (Inr r, s')" "u_product_id u = Val j" "j \<noteq> i"
  shows "product_id r = j" "get_product i s' = Inr r"
    "map_of (products s') j = map_of (products s) j"
proof -
  from assms(1) obtain p where p: "map_of (products s) i = Some p"
    by (cases "map_of (products s) i") (auto simp: update_product_absent)
  note k = update_product_Inr [OF p assms(1)]
  from k(1) assms(2) show "product_id r = j"
    by (auto simp: ProductRead_init_Inr_iff Product_dict_update_def
        ProductUpdate_model_dump_def)
  show "get_product i s' = Inr r"
    by (simp add: k(2) get_product_def AList.update_conv')
  from assms(3) show "map_of (products s') j = map_of (products s) j"
    by (simp add: k(2) AList.update_conv')
qed

text \<open>
  C9. An Update never changes the keys of a store. When the payload sets \<open>ein\<close> to a value
  \<open>e'\<close> other than the addressed key \<open>k\<close> and the Update succeeds, the record with
  \<open>ein = e'\<close> is stored under \<open>k\<close>, Get on \<open>k\<close> returns it, and Get on \<open>e'\<close> still fails
  with NotFound if \<open>e'\<close> was absent; likewise for \<open>product_id\<close>.
\<close>
theorem update_keeps_keys:
  "map fst (businesses (snd (update_business ev now k u s))) = map fst (businesses s) \<and>
   (update_business ev now k u s = (Inr r, s') \<and> u_ein u = Val e' \<and> e' \<noteq> k \<longrightarrow>
      ein r = e' \<and> ein r \<noteq> k \<and> get_business k s' = Inr r \<and>
      (map_of (businesses s) e' = None \<longrightarrow> (\<exists>e. get_business e' s' = Inl e \<and> NotFound e))) \<and>
   map fst (products (snd (update_product ev now i pu s))) = map fst (products s) \<and>
   (update_product ev now i pu s = (Inr pr, ps') \<and> u_product_id pu = Val j \<and> j \<noteq> i \<longrightarrow>
      product_id pr = j \<and> product_id pr \<noteq> i \<and> get_product i ps' = Inr pr \<and>
      (map_of (products s) j = None \<longrightarrow> (\<exists>e. get_product j ps' = Inl e \<and> NotFound e)))"
proof (intro conjI impI; (elim conjE)?)
  show "map fst (businesses (snd (update_business ev now k u s))) = map fst (businesses s)"
    by (rule update_business_keys)
  show "map fst (products (snd (update_product ev now i pu s))) = map fst (products s)"
    by (rule update_product_keys)
next
  assume a: "update_business ev now k u s = (Inr r, s')" "u_ein u = Val e'" "e' \<noteq> k"
  note f = update_business_rekey [OF a]
  show "ein r = e'" "get_business k s' = Inr r" by (rule f)+
  from f(1) a(3) show "ein r \<noteq> k" by simp
  show "\<exists>e. get_business e' s' = Inl e \<and> NotFound e" if "map_of (businesses s) e' = None"
    using that f(3) by (simp add: get_business_def NotFound_simps)
next
  assume a: "update_product ev now i pu s = (Inr pr, ps')" "u_product_id pu = Val j" "j \<noteq> i"
  note f = update_product_rekey [OF a]
  show "product_id pr = j" "get_product i ps' = Inr pr" by (rule f)+
  from f(1) a(3) show "product_id pr \<noteq> i" by simp
  show "\<exists>e. get_product j ps' = Inl e \<and> NotFound e" if "map_of (products s) j = None"
    using that f(3) by (simp add: get_product_def NotFound_simps)
qed

theorem update_keeps_keys_witness:
  "update_business accept_at (200, 201) (str_of ''12-3456789'') rekey app1 =
     (Inr rekeyed_read, \<lparr>businesses = [(str_of ''12-3456789'', rekeyed_read)],
                         products = [(0, vanilla_read)]\<rparr>) \<and>
   u_ein rekey = Val (str_of ''98-7654321'') \<and> (str_of ''98-7654321'') \<noteq> (str_of ''12-3456789'') \<and>
   map_of (businesses app1) (str_of ''98-7654321'') = None \<and>
   ein rekeyed_read = (str_of ''98-7654321'') \<and>
   get_business (str_of ''12-3456789'') \<lparr>businesses = [(str_of ''12-3456789'', rekeyed_read)],
                         products = [(0, vanilla_read)]\<rparr> = Inr rekeyed_read \<and>
   (\<exists>e. get_business (str_of ''98-7654321'') \<lparr>businesses = [(str_of ''12-3456789'', rekeyed_read)],
                         products = [(0, vanilla_read)]\<rparr> = Inl e \<and> NotFound e) \<and>
   update_product accept_at (200, 201) 0 p_rekey app1 =
     (Inr p_rekeyed_read, \<lparr>businesses = [(str_of ''12-3456789'', cupcakes_read)],
                           products = [(0, p_rekeyed_read)]\<rparr>) \<and>
   u_product_id p_rekey = Val 5 \<and> (5::int) \<noteq> 0 \<and> map_of (products app1) 5 = None \<and>
   product_id p_rekeyed_read = 5 \<and>
   get_product 0 \<lparr>businesses = [(str_of ''12-3456789'', cupcakes_read)],
                           products = [(0, p_rekeyed_read)]\<rparr> = Inr p_rekeyed_read \<and>
   (\<exists>e. get_product 5 \<lparr>businesses = [(str_of ''12-3456789'', cupcakes_read)],
                           products = [(0, p_rekeyed_read)]\<rparr> = Inl e \<and> NotFound e)"
proof -
  have h: "u_ein rekey = Val (str_of ''98-7654321'')" "(str_of ''98-7654321'') \<noteq> (str_of ''12-3456789'')"
    "u_product_id p_rekey = Val 5" "(5::int) \<noteq> 0"
    by (simp_all add: rekey_def p_rekey_def)
  from update_keeps_keys [of accept_at "(200, 201)" "(str_of ''12-3456789'')" rekey app1 rekeyed_read
      "\<lparr>businesses = [(str_of ''12-3456789'', rekeyed_read)], products = [(0, vanilla_read)]\<rparr>"
      "(str_of ''98-7654321'')" 0 p_rekey p_rekeyed_read
      "\<lparr>businesses = [(str_of ''12-3456789'', cupcakes_read)], products = [(0, p_rekeyed_read)]\<rparr>" 5]
    h rekey_run [of "(200, 201)"] p_rekey_run [of "(200, 201)"] app1_lookup(3,4)
  show ?thesis by blast
qed


lemma list_businesses_eq:
  "list_businesses e n m p s =
     filter (\<lambda>b. (case e of None \<Rightarrow> True | Some x \<Rightarrow> ein b = x) \<and>
                 (case n of None \<Rightarrow> True | Some x \<Rightarrow> name b = x) \<and>
                 (case m of None \<Rightarrow> True | Some x \<Rightarrow> email b = x) \<and>
                 (case p of None \<Rightarrow> True | Some x \<Rightarrow> phone b = Some x))
       (map snd (businesses s))"
  by (cases e; cases n; cases m; cases p) (simp_all add: list_businesses_def conj_commute conj_left_commute)

lemma list_products_eq:
  "list_products i n e bn s =
     filter (\<lambda>p. (case i of None \<Rightarrow> True | Some x \<Rightarrow> product_id p = x) \<and>
                 (case n of None \<Rightarrow> True | Some x \<Rightarrow> p_name p = x) \<and>
                 (case e of None \<Rightarrow> True | Some x \<Rightarrow> ein (business p) = x) \<and>
                 (case bn of None \<Rightarrow> True | Some x \<Rightarrow> name (business p) = x))
       (map snd (products s))"
  by (cases i; cases n; cases e; cases bn) (simp_all add: list_products_def conj_commute conj_left_commute)

lemma list_businesses_inter:
  "set (list_businesses e n m p s) =
     set (list_businesses e None None None s) \<inter> set (list_businesses None n None None s) \<inter>
     set (list_businesses None None m None s) \<inter> set (list_businesses None None None p s)"
  by (auto simp: list_businesses_eq)

lemma list_products_inter:
  "set (list_products i n e bn s) =
     set (list_products i None None None s) \<inter> set (list_products None n None None s) \<inter>
     set (list_products None None e None s) \<inter> set (list_products None None None bn s)"
  by (auto simp: list_products_eq)

text \<open>
  C4. List without filters returns every stored record; List with two filters on distinct
  fields returns exactly the records that List returns with the first filter alone and also
  with the second alone, for each pair of filter fields of either store.
\<close>
theorem list_filters_intersect:
  "list_businesses None None None None s = map snd (businesses s) \<and>
   set (list_businesses (Some e) (Some n) None None s) =
     set (list_businesses (Some e) None None None s) \<inter>
     set (list_businesses None (Some n) None None s) \<and>
   set (list_businesses (Some e) None (Some m) None s) =
     set (list_businesses (Some e) None None None s) \<inter>
     set (list_businesses None None (Some m) None s) \<and>
   set (list_businesses (Some e) None None (Some p) s) =
     set (list_businesses (Some e) None None None s) \<inter>
     set (list_businesses None None None (Some p) s) \<and>
   set (list_businesses None (Some n) (Some m) None s) =
     set (list_businesses None (Some n) None None s) \<inter>
     set (list_businesses None None (Some m) None s) \<and>
   set (list_businesses None (Some n) None (Some p) s) =
     set (list_businesses None (Some n) None None s) \<inter>
     set (list_businesses None None None (Some p) s) \<and>
   set (list_businesses None None (Some m) (Some p) s) =
     set (list_businesses None None (Some m) None s) \<inter>
     set (list_businesses None None None (Some p) s) \<and>
   list_products None None None None s = map snd (products s) \<and>
   set (list_products (Some i) (Some pn) None None s) =
     set (list_products (Some i) None None None s) \<inter>
     set (list_products None (Some pn) None None s) \<and>
   set (list_products (Some i) None (Some be) None s) =
     set (list_products (Some i) None None None s) \<inter>
     set (list_products None None (Some be) None s) \<and>
   set (list_products (Some i) None None (Some bn) s) =
     set (list_products (Some i) None None None s) \<inter>
     set (list_products None None None (Some bn) s) \<and>
   set (list_products None (Some pn) (Some be) None s) =
     set (list_products None (Some pn) None None s) \<inter>
     set (list_products None None (Some be) None s) \<and>
   set (list_products None (Some pn) None (Some bn) s) =
     set (list_products None (Some pn) None None s) \<inter>
     set (list_products None None None (Some bn) s) \<and>
   set (list_products None None (Some be) (Some bn) s) =
     set (list_products None None (Some be) None s) \<inter>
     set (list_products None None None (Some bn) s)"
proof -
  have b0: "list_businesses None None None None s = map snd (businesses s)"
    and p0: "list_products None None None None s = map snd (products s)"
    by (simp_all add: list_businesses_def list_products_def)
  have b: "set (list_businesses x y z w s) =
       set (list_businesses x None None None s) \<inter> set (list_businesses None y None None s) \<inter>
       set (list_businesses None None z None s) \<inter> set (list_businesses None None None w s)"
    for x y z w by (rule list_businesses_inter)
  have q: "set (list_products x y z w s) =
       set (list_products x None None None s) \<inter> set (list_products None y None None s) \<inter>
       set (list_products None None z None s) \<inter> set (list_products None None None w s)"
    for x y z w by (rule list_products_inter)
  have sb: "set (list_businesses x y z w s) \<subseteq> set (list_businesses None None None None s)"
    for x y z w by (auto simp: list_businesses_eq)
  have sq: "set (list_products x y z w s) \<subseteq> set (list_products None None None None s)"
    for x y z w by (auto simp: list_products_eq)
  show ?thesis
    apply (intro conjI)
                 apply (rule b0)
                apply (subst b, use sb in blast)
               apply (subst b, use sb in blast)
              apply (subst b, use sb in blast)
             apply (subst b, use sb in blast)
            apply (subst b, use sb in blast)
           apply (subst b, use sb in blast)
          apply (rule p0)
         apply (subst q, use sq in blast)
        apply (subst q, use sq in blast)
       apply (subst q, use sq in blast)
      apply (subst q, use sq in blast)
     apply (subst q, use sq in blast)
    apply (subst q, use sq in blast)
    done
qed


lemma create_product_frame:
  "businesses (snd (create_product ev now p s)) = businesses s"
  "fst (create_product ev now p (s\<lparr>businesses := bs\<rparr>)) = fst (create_product ev now p s)"
  "products (snd (create_product ev now p (s\<lparr>businesses := bs\<rparr>)))
     = products (snd (create_product ev now p s))"
  by (auto simp: create_product_def split: sum.splits)

lemma update_product_frame:
  "businesses (snd (update_product ev now i u s)) = businesses s"
  "fst (update_product ev now i u (s\<lparr>businesses := bs\<rparr>)) = fst (update_product ev now i u s)"
  "products (snd (update_product ev now i u (s\<lparr>businesses := bs\<rparr>)))
     = products (snd (update_product ev now i u s))"
  by (auto simp: update_product_def Let_def split: sum.splits option.splits)

lemma update_business_frame:
  "products (snd (update_business ev now k u s)) = products s"
  by (auto simp: update_business_def Let_def split: sum.splits option.splits)

text \<open>
  C8. Creating or updating a Product leaves the Business store as it is and does not depend on
  it: the result and the Product store are the same whatever the Business store holds, and a
  valid Product is created although its business \<open>ein\<close> is no key of the Business store.
  Updating a Business leaves the Product store, and with it every embedded business, as it is.
\<close>
theorem stores_independent:
  "businesses (snd (create_product ev now p s)) = businesses s \<and>
   fst (create_product ev now p (s\<lparr>businesses := bs\<rparr>)) = fst (create_product ev now p s) \<and>
   products (snd (create_product ev now p (s\<lparr>businesses := bs\<rparr>)))
     = products (snd (create_product ev now p s)) \<and>
   businesses (snd (update_product ev now i pu s)) = businesses s \<and>
   fst (update_product ev now i pu (s\<lparr>businesses := bs\<rparr>))
     = fst (update_product ev now i pu s) \<and>
   products (snd (update_product ev now i pu (s\<lparr>businesses := bs\<rparr>)))
     = products (snd (update_product ev now i pu s)) \<and>
   (valid_product ev p \<and> map_of (products s) (product_id p) = None \<and>
    map_of (businesses s) (ein (business p)) = None \<longrightarrow>
      (\<exists>r s'. create_product ev now p s = (Inr r, s') \<and> business r = business p)) \<and>
   products (snd (update_business ev now k u s)) = products s \<and>
   get_product j (snd (update_business ev now k u s)) = get_product j s \<and>
   map (business \<circ> snd) (products (snd (update_business ev now k u s)))
     = map (business \<circ> snd) (products s)"
  by (simp add: create_product_frame update_product_frame update_business_frame
      create_product_ok get_product_def)

theorem stores_independent_witness:
  "valid_product accept_at chocolate \<and> map_of (products app1) (product_id chocolate) = None \<and>
   map_of (businesses app1) (ein (business chocolate)) = None \<and>
   (\<exists>r s'. create_product accept_at (200, 201) chocolate app1 = (Inr r, s') \<and>
      business r = business chocolate) \<and>
   businesses (snd (create_product accept_at (200, 201) chocolate app1)) = businesses app1 \<and>
   get_product 0 (snd (update_business accept_at (200, 201) (str_of ''12-3456789'') rename app1))
     = get_product 0 app1"
proof -
  have a: "map_of (products app1) (product_id chocolate) = None"
    "map_of (businesses app1) (ein (business chocolate)) = None"
    by (simp_all add: app1_def chocolate_def bakery_def)
  with valid_samples2(2)
    stores_independent [of accept_at "(200, 201)" chocolate app1 bs 0 pu "(str_of ''12-3456789'')" rename 0]
  show ?thesis by blast
qed



lemma ein_field_errs:
  "set (errs (ein_field l (Val e))) = (if EINType_ok e then {} else {(l, String_pattern_mismatch)})"
  "set (errs (opt_ein_field l (Val e))) = (if EINType_ok e then {} else {(l, String_pattern_mismatch)})"
  by simp_all

































section \<open>Requests keep the stored records valid\<close>

lemma set_update_subset: "set (AList.update k v al) \<subseteq> insert (k, v) (set al)"
  by (induction al) auto

lemma set_delete_subset: "set (AList.delete k al) \<subseteq> set al"
  by (auto simp: AList.delete_eq)

lemma list_all_update:
  "list_all P al \<Longrightarrow> P (k, v) \<Longrightarrow> list_all P (AList.update k v al)"
  using set_update_subset [of k v al] by (auto simp: list_all_iff)

lemma list_all_delete: "list_all P al \<Longrightarrow> list_all P (AList.delete k al)"
  using set_delete_subset [of k al] by (auto simp: list_all_iff)

lemma valid_store_lookup:
  assumes "valid_store ev s"
  shows "map_of (businesses s) k = Some b \<Longrightarrow> valid_business ev b"
    and "map_of (products s) i = Some p \<Longrightarrow> valid_product ev p"
  using assms by (auto simp: valid_store_def list_all_iff dest!: map_of_SomeD)

lemma BusinessBase_init_valid:
  assumes "idempotent ev" "BusinessBase_init ev l d = Inr b"
  shows "valid_business ev b"
proof -
  from assms(2) have "ein_field (l @ [''ein'']) (d_ein d) = Inr (ein b)"
    and "email_field ev (l @ [''email'']) (d_email d) = Inr (email b)"
    by (simp_all add: BusinessBase_init_Inr_iff)
  then have "EINType_ok (ein b)" and "\<exists>x. ev x = Some (email b)"
    by (auto simp: ein_field_Inr email_field_Inr)
  with assms(1) show ?thesis by (auto simp: valid_business_def idempotent_def)
qed

lemma BusinessRead_init_valid:
  assumes "idempotent ev" "BusinessRead_init ev now d = Inr b"
  shows "valid_business ev b"
proof -
  from assms(2) have "ein_field [''ein''] (d_ein d) = Inr (ein b)"
    and "email_field ev [''email''] (d_email d) = Inr (email b)"
    by (simp_all add: BusinessRead_init_Inr_iff)
  then have "EINType_ok (ein b)" and "\<exists>x. ev x = Some (email b)"
    by (auto simp: ein_field_Inr email_field_Inr)
  with assms(1) show ?thesis by (auto simp: valid_business_def idempotent_def)
qed

lemma ProductRead_init_valid:
  assumes "idempotent ev" "ProductRead_init ev now d = Inr p"
  shows "valid_product ev p"
proof -
  from assms(2) obtain bd where "BusinessBase_init ev [''business''] bd = Inr (business p)"
    by (auto simp: ProductRead_init_Inr_iff business_field_Inr)
  from BusinessBase_init_valid [OF assms(1) this] show ?thesis
    by (simp add: valid_product_def)
qed



lemma valid_store_businesses:
  "valid_store ev s \<Longrightarrow> valid_business ev r \<Longrightarrow>
   valid_store ev (s\<lparr>businesses := AList.update k r (businesses s)\<rparr>)"
  by (simp add: valid_store_def list_all_update)

lemma valid_store_products:
  "valid_store ev s \<Longrightarrow> valid_product ev r \<Longrightarrow>
   valid_store ev (s\<lparr>products := AList.update i r (products s)\<rparr>)"
  by (simp add: valid_store_def list_all_update)

lemma handlers_keep_valid:
  assumes "idempotent ev" "valid_store ev s"
  shows "valid_store ev (snd (create_business ev now b s))"
    and "valid_store ev (snd (update_business ev now k u s))"
    and "valid_store ev (snd (delete_business k s))"
    and "valid_store ev (snd (create_product ev now p s))"
    and "valid_store ev (snd (update_product ev now i pu s))"
    and "valid_store ev (snd (delete_product i s))"
proof -
  show "valid_store ev (snd (create_business ev now b s))"
    using assms
    by (auto simp: create_business_def valid_store_businesses BusinessRead_init_valid
        split: sum.splits)
  show "valid_store ev (snd (update_business ev now k u s))"
    using assms
    by (auto simp: update_business_def valid_store_businesses BusinessRead_init_valid
        split: sum.splits option.splits)
  show "valid_store ev (snd (delete_business k s))"
    using assms(2) by (simp add: delete_business_def valid_store_def list_all_delete)
  show "valid_store ev (snd (create_product ev now p s))"
    using assms
    by (auto simp: create_product_def valid_store_products ProductRead_init_valid
        split: sum.splits)
  show "valid_store ev (snd (update_product ev now i pu s))"
    using assms
    by (auto simp: update_product_def valid_store_products ProductRead_init_valid
        split: sum.splits option.splits)
  show "valid_store ev (snd (delete_product i s))"
    using assms(2) by (simp add: delete_product_def valid_store_def list_all_delete)
qed

lemma requests_keep_valid:
  assumes "idempotent ev" "valid_store ev s"
  shows "valid_store ev (snd (post_businesses ev now body s))"
    and "valid_store ev (snd (patch_businesses ev now k body s))"
    and "valid_store ev (snd (post_products ev now pbody s))"
    and "valid_store ev (snd (patch_products ev now i pbody s))"
  using assms handlers_keep_valid [OF assms]
  by (auto simp: post_businesses_def patch_businesses_def post_products_def patch_products_def
      split: sum.splits)

lemma valid_store_empty: "valid_store ev \<lparr>businesses = [], products = []\<rparr>"
  by (simp add: valid_store_def)

lemma idempotent_accept_at: "idempotent accept_at"
  by (simp add: idempotent_def accept_at_def split: if_splits)





section \<open>Updates that set a required field to None, and updates from a request body\<close>




















end
